theory Spec2Isabelle
  imports Main "HOL-Library.Word"
begin

unbundle bit_operations_syntax

section \<open>Redirect and creation service (go-service/main.go)\<close>

subsection \<open>Short codes\<close>

text \<open>
  \<^verbatim>\<open>generateShortCode\<close> fills a buffer of six bytes from the system's random source,
  encodes it with the URL-safe base64 encoding of Go's standard library and keeps the
  first six characters. The random source is an input of the model: \<open>src\<close> is the
  sequence of bytes that \<^verbatim>\<open>rand.Read\<close> writes into the buffer (a short read leaves
  the rest of the zeroed buffer as it is; the source ignores the error).

  The encoding follows \<^verbatim>\<open>Encoding.Encode\<close> of \<^verbatim>\<open>encoding/base64\<close> with the alphabet
  of \<^verbatim>\<open>URLEncoding\<close> and the padding character \<open>=\<close>: three bytes are packed into a
  machine word and cut into four groups of six bits, each an index into the alphabet.
\<close>

type_synonym byte = "8 word"

definition encodeURL :: string where
  "encodeURL = ''ABCDEFGHIJKLMNOPQRSTUVWXYZabcdefghijklmnopqrstuvwxyz0123456789-_''"

definition enc6 :: "64 word \<Rightarrow> char" where
  "enc6 v = encodeURL ! unat (v AND 0x3F)"

fun EncodeToString :: "byte list \<Rightarrow> string" where
  "EncodeToString (b0 # b1 # b2 # src) =
     (let val = push_bit 16 (ucast b0) OR push_bit 8 (ucast b1) OR ucast b2 in
        [enc6 (drop_bit 18 val), enc6 (drop_bit 12 val), enc6 (drop_bit 6 val), enc6 val]
        @ EncodeToString src)"
| "EncodeToString [b0, b1] =
     (let val = push_bit 16 (ucast b0) OR push_bit 8 (ucast b1) in
        [enc6 (drop_bit 18 val), enc6 (drop_bit 12 val), enc6 (drop_bit 6 val), CHR ''=''])"
| "EncodeToString [b0] =
     (let val = push_bit 16 (ucast b0) in
        [enc6 (drop_bit 18 val), enc6 (drop_bit 12 val), CHR ''='', CHR ''=''])"
| "EncodeToString [] = []"

definition rand_Read :: "byte list \<Rightarrow> byte list \<Rightarrow> byte list" where
  "rand_Read b src = take (length b) src @ drop (length src) b"

definition generateShortCode :: "byte list \<Rightarrow> string" where
  "generateShortCode src =
     (let b = rand_Read (replicate 6 0) src;
          encoded = EncodeToString b
      in take 6 encoded)"

subsection \<open>The urls table\<close>

text \<open>
  A row of the table \<^verbatim>\<open>urls\<close> keeps the two columns the handlers read and write
  (\<^verbatim>\<open>id\<close> and \<^verbatim>\<open>created_at\<close> are filled in by the database and never read). The
  table is the list of its rows in insertion order. Every statement can fail in the
  database driver; the flag \<open>fails\<close> of each operation says whether it does.
  \<^verbatim>\<open>short_code\<close> is declared \<^verbatim>\<open>UNIQUE\<close>, so an insert of a code that is present
  fails as well.
\<close>

record url_row =
  short_code :: string
  long_url :: string

type_synonym urls_table = "url_row list"

definition count_rows :: "urls_table \<Rightarrow> string \<Rightarrow> int" where
  "count_rows db c = int (length (filter (\<lambda>r. short_code r = c) db))"

definition select_count :: "urls_table \<Rightarrow> bool \<Rightarrow> string \<Rightarrow> int option" where
  "select_count db fails c = (if fails then None else Some (count_rows db c))"

definition insert_url :: "urls_table \<Rightarrow> bool \<Rightarrow> string \<Rightarrow> string \<Rightarrow> urls_table option" where
  "insert_url db fails c l =
     (if fails \<or> count_rows db c > 0 then None
      else Some (db @ [\<lparr>short_code = c, long_url = l\<rparr>]))"

datatype row_scan = ErrNoRows | ErrOther | Scanned string

definition select_long_url :: "urls_table \<Rightarrow> bool \<Rightarrow> string \<Rightarrow> row_scan" where
  "select_long_url db fails c =
     (if fails then ErrOther
      else case find (\<lambda>r. short_code r = c) db of
             None \<Rightarrow> ErrNoRows
           | Some r \<Rightarrow> Scanned (long_url r))"

subsection \<open>Creating a short URL\<close>

text \<open>
  The handler receives the outcome of \<^verbatim>\<open>ShouldBindJSON\<close>: the error of the binding
  (\<open>Inl\<close>) or the bound request. It answers with a status and a JSON body, or with a
  redirect.

  Each call of \<^verbatim>\<open>generateShortCode\<close> together with the existence query that follows
  it is one \<open>draw\<close>: the bytes read from the random source and whether the query
  fails. Draw \<open>0\<close> is the one before the loop, whose error is answered with status 500.
  Inside the loop the error of \<^verbatim>\<open>Scan\<close> is dropped, and a failed \<^verbatim>\<open>Scan\<close> leaves
  \<^verbatim>\<open>exists\<close> as it was. The loop has no bound, so it is a partial function: \<open>None\<close>
  is the run that never leaves the loop. Its result is the code it ends with and the
  index of the next unused draw.
\<close>

datatype ShortenRequest = ShortenRequest (LongURL: string)

datatype body = ErrorBody string | ShortenResponse string string string

datatype response = JSON nat body | Redirect nat string

record draw =
  entropy :: "byte list"
  query_fails :: bool

record create_env =
  draws :: "nat \<Rightarrow> draw"
  insert_fails :: bool

partial_function (option) retry_loop ::
  "urls_table \<Rightarrow> (nat \<Rightarrow> draw) \<Rightarrow> nat \<Rightarrow> string \<Rightarrow> int \<Rightarrow> (string \<times> nat) option" where
  [code]: "retry_loop db ds i shortCode exists =
     (if exists > 0 then
        (let shortCode' = generateShortCode (entropy (ds i));
             exists' = (case select_count db (query_fails (ds i)) shortCode' of
                          None \<Rightarrow> exists
                        | Some n \<Rightarrow> n)
         in retry_loop db ds (Suc i) shortCode' exists')
      else Some (shortCode, i))"

definition createShortURL ::
  "urls_table \<Rightarrow> string + ShortenRequest \<Rightarrow> create_env \<Rightarrow> (response \<times> urls_table) option" where
  "createShortURL db bound env =
     (case bound of
        Inl err \<Rightarrow> Some (JSON 400 (ErrorBody err), db)
      | Inr req \<Rightarrow>
          (let shortCode = generateShortCode (entropy (draws env 0)) in
           case select_count db (query_fails (draws env 0)) shortCode of
             None \<Rightarrow> Some (JSON 500 (ErrorBody ''Database error''), db)
           | Some exists \<Rightarrow>
               (case retry_loop db (draws env) 1 shortCode exists of
                  None \<Rightarrow> None
                | Some (shortCode', n) \<Rightarrow>
                    (case insert_url db (insert_fails env) shortCode' (LongURL req) of
                       None \<Rightarrow> Some (JSON 500 (ErrorBody ''Failed to create short URL''), db)
                     | Some db' \<Rightarrow>
                         Some (JSON 200 (ShortenResponse shortCode'
                                 (''http://localhost:8000/'' @ shortCode') (LongURL req)), db')))))"

subsection \<open>Redirecting and notifying\<close>

text \<open>
  \<^verbatim>\<open>sendClickEvent\<close> runs in a goroutine of its own. What it does is a list of
  effects: at most one POST to the analytics service and one log line. The outcome of
  the POST (an error of the client, such as a timeout or a refused connection, or the
  status of the answer), the error of the JSON encoder and the formatted clock are
  inputs. A log line is its format string with the value printed into it.

  \<^verbatim>\<open>redirect\<close> returns its answer, the table and the effects of the goroutine it
  started. The answer \<open>Redirect 301 longURL\<close> is the pair that the handler hands to
  the framework's \<^verbatim>\<open>c.Redirect\<close>.
\<close>

record ClickEvent =
  ShortCode :: string
  ClickedAt :: string

datatype post_result = PostErr string | PostResp nat

datatype effect = Post string ClickEvent | Log string "string + nat"

record notify_env =
  now_RFC3339 :: string
  marshal_err :: "string option"
  post_result :: post_result

definition pythonServiceURL :: string where
  "pythonServiceURL = ''http://localhost:5000''"

definition sendClickEvent :: "string \<Rightarrow> notify_env \<Rightarrow> effect list" where
  "sendClickEvent shortCode nenv =
     (let event = \<lparr>ShortCode = shortCode, ClickedAt = now_RFC3339 nenv\<rparr> in
      case marshal_err nenv of
        Some err \<Rightarrow> [Log ''Error marshaling event: %v'' (Inl err)]
      | None \<Rightarrow>
          (case post_result nenv of
             PostErr err \<Rightarrow>
               [Post (pythonServiceURL @ ''/api/events'') event,
                Log ''Error sending event to Python service: %v'' (Inl err)]
           | PostResp status \<Rightarrow>
               (if status \<noteq> 200 then
                  [Post (pythonServiceURL @ ''/api/events'') event,
                   Log ''Python service returned status: %d'' (Inr status)]
                else
                  [Post (pythonServiceURL @ ''/api/events'') event,
                   Log ''Click event sent for short code: %s'' (Inl shortCode)])))"

definition redirect ::
  "urls_table \<Rightarrow> bool \<Rightarrow> string \<Rightarrow> notify_env \<Rightarrow> response \<times> urls_table \<times> effect list" where
  "redirect db lookup_fails shortCode nenv =
     (case select_long_url db lookup_fails shortCode of
        ErrNoRows \<Rightarrow> (JSON 404 (ErrorBody ''Short URL not found''), db, [])
      | ErrOther \<Rightarrow> (JSON 500 (ErrorBody ''Database error''), db, [])
      | Scanned longURL \<Rightarrow> (Redirect 301 longURL, db, sendClickEvent shortCode nenv))"

subsection \<open>What is written for a redirect\<close>









subsection \<open>The service as a sequence of requests\<close>

text \<open>
  The two routes of \<^verbatim>\<open>main\<close>, served one request after the other on the same table.
  A creation that never leaves its retry loop gives no later state.
\<close>

datatype request =
  POST_shorten "string + ShortenRequest" create_env
| GET_code string bool notify_env

definition handle :: "urls_table \<Rightarrow> request \<Rightarrow> (response \<times> urls_table) option" where
  "handle db rq =
     (case rq of
        POST_shorten bound env \<Rightarrow> createShortURL db bound env
      | GET_code shortCode lookup_fails nenv \<Rightarrow>
          (case redirect db lookup_fails shortCode nenv of (resp, db', _) \<Rightarrow> Some (resp, db')))"

fun serve :: "urls_table \<Rightarrow> request list \<Rightarrow> (response list \<times> urls_table) option" where
  "serve db [] = Some ([], db)"
| "serve db (rq # rqs) =
     (case handle db rq of
        None \<Rightarrow> None
      | Some (resp, db') \<Rightarrow>
          (case serve db' rqs of
             None \<Rightarrow> None
           | Some (resps, db'') \<Rightarrow> Some (resp # resps, db'')))"

subsection \<open>Vocabulary of the statements\<close>

text \<open>
  \<open>fresh_draw db ds j\<close>: the existence query of draw \<open>j\<close> succeeds and counts no row
  with the drawn code. \<open>drawn_code env j\<close> is the code of draw \<open>j\<close>.
\<close>

definition fresh_draw :: "urls_table \<Rightarrow> (nat \<Rightarrow> draw) \<Rightarrow> nat \<Rightarrow> bool" where
  "fresh_draw db ds j \<longleftrightarrow>
     \<not> query_fails (ds j) \<and> count_rows db (generateShortCode (entropy (ds j))) = 0"

definition drawn_code :: "create_env \<Rightarrow> nat \<Rightarrow> string" where
  "drawn_code env j = generateShortCode (entropy (draws env j))"

definition is_Post :: "effect \<Rightarrow> bool" where
  "is_Post e = (case e of Post _ _ \<Rightarrow> True | Log _ _ \<Rightarrow> False)"

section \<open>Metadata service (the Node.js server)\<close>

subsection \<open>Pages, strings and URLs\<close>

text \<open>
  The page that \<^verbatim>\<open>cheerio.load\<close> returns is used through selector queries only, so a
  loaded page is the function from a selector to the elements it matches, in document
  order. A selector is a tag name with its attribute conditions: \<open>Sel ''link'' [(''rel'',
  ''icon'')]\<close> is \<^verbatim>\<open>link[rel=icon]\<close> with the value quoted. \<^verbatim>\<open>.text()\<close> joins the text
  of all matched elements; \<^verbatim>\<open>.attr(name)\<close> reads the attribute of the first matched
  element and is \<^verbatim>\<open>undefined\<close> (\<open>None\<close>) without a match or without the attribute.

  A JavaScript string is the list of its UTF-16 code units (\<open>ustring\<close>); \<open>js\<close> writes
  an ASCII literal of the source as such a list. Tag and attribute names, which only
  occur as literals of the source, stay plain strings. A JavaScript value that is a
  string or \<^verbatim>\<open>undefined\<close>/\<^verbatim>\<open>null\<close> is a \<open>ustring option\<close>; \<open>falsy\<close> is the test
  \<^verbatim>\<open>!v\<close>. \<open>trim\<close> is \<^verbatim>\<open>String.prototype.trim\<close>: it strips, from both ends, the code
  units that ECMAScript calls white space (TAB, VT, FF, the byte order mark and the
  space separators of Unicode) or line terminators (LF, CR, LS, PS).

  \<open>fetch_page w url\<close> is the outcome of \<^verbatim>\<open>axios.get\<close> followed by \<^verbatim>\<open>cheerio.load\<close>
  (\<open>None\<close> when either throws: a timeout, a refused connection, a status outside 2xx,
  too many redirects, a body that does not load). \<open>new_URL w url\<close> is the outcome of
  the constructor \<^verbatim>\<open>new URL(url)\<close> (\<open>None\<close> when it throws), of which the code reads
  \<^verbatim>\<open>protocol\<close> (with its colon) and \<^verbatim>\<open>hostname\<close> (without the port).
\<close>

type_synonym ustring = "16 word list"

definition js :: "string \<Rightarrow> ustring" where
  "js s = map of_char s"

record element =
  attribs :: "(string \<times> ustring) list"
  text_content :: ustring

datatype selector = Sel string "(string \<times> string) list"

type_synonym cheerio = "selector \<Rightarrow> element list"

definition text_of :: "element list \<Rightarrow> ustring" where
  "text_of els = concat (map text_content els)"

definition attr :: "element list \<Rightarrow> string \<Rightarrow> ustring option" where
  "attr els name = (case els of [] \<Rightarrow> None | el # _ \<Rightarrow> map_of (attribs el) name)"

definition is_white_space :: "16 word \<Rightarrow> bool" where
  "is_white_space c \<longleftrightarrow>
     c \<in> set [0x0009, 0x000A, 0x000B, 0x000C, 0x000D, 0x0020, 0x00A0, 0x1680,
               0x2000, 0x2001, 0x2002, 0x2003, 0x2004, 0x2005, 0x2006, 0x2007,
               0x2008, 0x2009, 0x200A, 0x2028, 0x2029, 0x202F, 0x205F, 0x3000, 0xFEFF]"

definition trim :: "ustring \<Rightarrow> ustring" where
  "trim s = rev (dropWhile is_white_space (rev (dropWhile is_white_space s)))"

definition falsy :: "ustring option \<Rightarrow> bool" where
  "falsy v = (case v of None \<Rightarrow> True | Some s \<Rightarrow> s = [])"

definition startsWith :: "ustring \<Rightarrow> ustring \<Rightarrow> bool" where
  "startsWith s p = (take (length p) s = p)"

record URL =
  protocol :: ustring
  hostname :: ustring

record web =
  fetch_page :: "ustring \<Rightarrow> cheerio option"
  new_URL :: "ustring \<Rightarrow> URL option"

subsection \<open>Extracting the metadata\<close>

text \<open>
  \<^verbatim>\<open>fetchUrlMetadata\<close>: everything between \<^verbatim>\<open>try\<close> and \<^verbatim>\<open>catch\<close> either produces
  the three fields or throws, and every throw ends in the fixed result of the
  \<^verbatim>\<open>catch\<close> block. \<open>favicon_loop\<close> is the \<^verbatim>\<open>for\<close> loop over the selectors, with the
  variable \<^verbatim>\<open>faviconUrl\<close> as its accumulator; \<open>absolute_favicon\<close> is the chain of
  \<^verbatim>\<open>if\<close>/\<^verbatim>\<open>else if\<close> after it, \<open>None\<close> when \<^verbatim>\<open>new URL\<close> throws.
\<close>

record page_metadata =
  title :: ustring
  description :: ustring
  favicon_url :: "ustring option"

definition faviconSelectors :: "selector list" where
  "faviconSelectors =
     [Sel ''link'' [(''rel'', ''icon'')],
      Sel ''link'' [(''rel'', ''shortcut icon'')],
      Sel ''link'' [(''rel'', ''apple-touch-icon'')],
      Sel ''link'' [(''rel'', ''icon''), (''type'', ''image/png'')],
      Sel ''link'' [(''rel'', ''icon''), (''type'', ''image/x-icon'')]]"

fun favicon_loop :: "cheerio \<Rightarrow> selector list \<Rightarrow> ustring option \<Rightarrow> ustring option" where
  "favicon_loop dollar [] faviconUrl = faviconUrl"
| "favicon_loop dollar (selector # rest) faviconUrl =
     (let faviconUrl' = attr (dollar selector) ''href'' in
      if \<not> falsy faviconUrl' then faviconUrl' else favicon_loop dollar rest faviconUrl')"

definition absolute_favicon :: "web \<Rightarrow> ustring \<Rightarrow> ustring option \<Rightarrow> ustring option" where
  "absolute_favicon w url faviconUrl =
     (case (if falsy faviconUrl then None else faviconUrl) of
        None \<Rightarrow>
          (case new_URL w url of
             None \<Rightarrow> None
           | Some urlObj \<Rightarrow> Some (protocol urlObj @ js ''//'' @ hostname urlObj @ js ''/favicon.ico''))
      | Some href \<Rightarrow>
          (if startsWith href (js ''/'') then
             (case new_URL w url of
                None \<Rightarrow> None
              | Some urlObj \<Rightarrow> Some (protocol urlObj @ js ''//'' @ hostname urlObj @ href))
           else if \<not> startsWith href (js ''http'') then
             (case new_URL w url of
                None \<Rightarrow> None
              | Some urlObj \<Rightarrow> Some (protocol urlObj @ js ''//'' @ hostname urlObj @ js ''/'' @ href))
           else Some href))"

definition unable_to_fetch :: page_metadata where
  "unable_to_fetch =
     \<lparr>title = js ''Unable to fetch title'',
      description = js ''Could not retrieve page information'',
      favicon_url = None\<rparr>"

definition fetchUrlMetadata :: "web \<Rightarrow> ustring \<Rightarrow> page_metadata" where
  "fetchUrlMetadata w url =
     (case fetch_page w url of
        None \<Rightarrow> unable_to_fetch
      | Some dollar \<Rightarrow>
          (let title0 = Some (trim (text_of (dollar (Sel ''title'' []))));
               title1 = (if falsy title0
                         then attr (dollar (Sel ''meta'' [(''property'', ''og:title'')])) ''content''
                         else title0);
               title2 = (if falsy title1 then Some (js ''No title found'') else title1);
               description0 = attr (dollar (Sel ''meta'' [(''name'', ''description'')])) ''content'';
               description1 = (if falsy description0
                               then attr (dollar (Sel ''meta'' [(''property'', ''og:description'')])) ''content''
                               else description0);
               description2 = (if falsy description1 then Some (js ''No description available'')
                               else description1);
               faviconUrl = favicon_loop dollar faviconSelectors None
           in case (title2, description2, absolute_favicon w url faviconUrl) of
                (Some t, Some d, Some f) \<Rightarrow>
                  \<lparr>title = take 200 t, description = take 500 d, favicon_url = Some f\<rparr>
              | _ \<Rightarrow> unable_to_fetch))"

subsection \<open>Storing and answering\<close>

text \<open>
  A row of the table \<^verbatim>\<open>metadata\<close> without the columns the database fills in.
  \<^verbatim>\<open>INSERT OR REPLACE\<close> on the unique \<^verbatim>\<open>short_code\<close> removes the row of that code and
  appends the new one; \<open>fails\<close> says whether the statement fails. The handler of
  \<^verbatim>\<open>POST /api/metadata\<close> takes the two fields of the parsed body, each a string or
  missing, and returns the status with the JSON body, and the table. The error message
  and the status field of the answer are literals of the source and stay plain
  strings.
\<close>

record metadata_row =
  row_short_code :: ustring
  row_url :: ustring
  row_title :: ustring
  row_description :: ustring
  row_favicon_url :: "ustring option"

type_synonym metadata_table = "metadata_row list"

definition insert_or_replace :: "metadata_table \<Rightarrow> bool \<Rightarrow> metadata_row \<Rightarrow> metadata_table option" where
  "insert_or_replace db fails row =
     (if fails then None
      else Some (filter (\<lambda>r. row_short_code r \<noteq> row_short_code row) db @ [row]))"

datatype metadata_body =
  MetadataError string
| MetadataResult ustring ustring ustring ustring "ustring option" string

definition post_metadata ::
  "metadata_table \<Rightarrow> web \<Rightarrow> bool \<Rightarrow> ustring option \<Rightarrow> ustring option
     \<Rightarrow> (nat \<times> metadata_body) \<times> metadata_table" where
  "post_metadata db w store_fails body_short_code body_long_url =
     (case (body_short_code, body_long_url) of
        (Some sc, Some lu) \<Rightarrow>
          (if sc = [] \<or> lu = [] then
             ((400, MetadataError ''short_code and long_url are required''), db)
           else
             (let metadata = fetchUrlMetadata w lu in
              case insert_or_replace db store_fails
                     \<lparr>row_short_code = sc, row_url = lu, row_title = title metadata,
                      row_description = description metadata,
                      row_favicon_url = favicon_url metadata\<rparr> of
                None \<Rightarrow> ((500, MetadataError ''Failed to store metadata''), db)
              | Some db' \<Rightarrow>
                  ((200, MetadataResult sc lu (title metadata) (description metadata)
                           (favicon_url metadata) ''success''), db')))
      | _ \<Rightarrow> ((400, MetadataError ''short_code and long_url are required''), db))"

definition get_metadata :: "metadata_table \<Rightarrow> ustring \<Rightarrow> metadata_row option" where
  "get_metadata db sc = find (\<lambda>r. row_short_code r = sc) db"

subsection \<open>The fallback chains as the specification words them\<close>

text \<open>
  \<open>first_href\<close> is the first non-empty \<^verbatim>\<open>href\<close> that the selectors give, taken in the
  order of the list. \<open>title_chain\<close> and \<open>description_chain\<close> are the values of the two
  chains before they are cut to length.
\<close>

definition first_href :: "cheerio \<Rightarrow> ustring option" where
  "first_href dollar =
     (case filter (\<lambda>h. \<not> falsy h) (map (\<lambda>selector. attr (dollar selector) ''href'') faviconSelectors) of
        [] \<Rightarrow> None
      | h # _ \<Rightarrow> h)"

definition title_chain :: "cheerio \<Rightarrow> ustring" where
  "title_chain dollar =
     (if trim (text_of (dollar (Sel ''title'' []))) \<noteq> []
      then trim (text_of (dollar (Sel ''title'' [])))
      else case attr (dollar (Sel ''meta'' [(''property'', ''og:title'')])) ''content'' of
             None \<Rightarrow> js ''No title found''
           | Some c \<Rightarrow> if c = [] then js ''No title found'' else c)"

definition description_chain :: "cheerio \<Rightarrow> ustring" where
  "description_chain dollar =
     (case attr (dollar (Sel ''meta'' [(''name'', ''description'')])) ''content'' of
        Some c \<Rightarrow> if c \<noteq> [] then c else
          (case attr (dollar (Sel ''meta'' [(''property'', ''og:description'')])) ''content'' of
             None \<Rightarrow> js ''No description available''
           | Some c' \<Rightarrow> if c' = [] then js ''No description available'' else c')
      | None \<Rightarrow>
          (case attr (dollar (Sel ''meta'' [(''property'', ''og:description'')])) ''content'' of
             None \<Rightarrow> js ''No description available''
           | Some c' \<Rightarrow> if c' = [] then js ''No description available'' else c'))"

section \<open>Concrete tables, draws and pages\<close>

text \<open>
  A table holding the code \<open>AAAAAA\<close>, which six zero bytes encode. \<open>demo_draws\<close> draws
  that code twice, then \<open>AQIDBA\<close> with a failing query, then \<open>AQIDBA\<close> with a query that
  succeeds. \<open>outage_draws\<close> collides once and then draws the absent code \<open>AQIDBA\<close>
  forever while every query fails.
\<close>

definition demo_db :: urls_table where
  "demo_db = [\<lparr>short_code = ''AAAAAA'', long_url = ''https://a.example''\<rparr>]"

definition demo_draws :: "nat \<Rightarrow> draw" where
  "demo_draws i =
     (if i < 2 then \<lparr>entropy = [0, 0, 0, 0, 0, 0], query_fails = False\<rparr>
      else \<lparr>entropy = [1, 2, 3, 4, 5, 6], query_fails = (i = 2)\<rparr>)"

definition demo_env :: create_env where
  "demo_env = \<lparr>draws = demo_draws, insert_fails = False\<rparr>"

definition outage_draws :: "nat \<Rightarrow> draw" where
  "outage_draws i =
     (if i = 0 then \<lparr>entropy = [0, 0, 0, 0, 0, 0], query_fails = False\<rparr>
      else \<lparr>entropy = [1, 2, 3, 4, 5, 6], query_fails = True\<rparr>)"

definition outage_env :: create_env where
  "outage_env = \<lparr>draws = outage_draws, insert_fails = False\<rparr>"

definition demo_request :: "string + ShortenRequest" where
  "demo_request = Inr (ShortenRequest ''https://example.com'')"

definition demo_notify :: notify_env where
  "demo_notify = \<lparr>now_RFC3339 = ''2024-01-01T00:00:00Z'', marshal_err = None,
                   post_result = PostErr ''connection refused''\<rparr>"

definition delivered_notify :: notify_env where
  "delivered_notify = \<lparr>now_RFC3339 = ''2024-01-01T00:00:00Z'', marshal_err = None,
                        post_result = PostResp 200\<rparr>"

definition demo_session :: "request list" where
  "demo_session =
     [GET_code ''AAAAAA'' False demo_notify,
      POST_shorten demo_request demo_env,
      GET_code ''AQIDBA'' False delivered_notify,
      GET_code ''AAAAAA'' True demo_notify]"






text \<open>
  Pages: one whose only content is a title of 201 letters; one whose title is padded
  with a space and a no-break space in front and a line feed and an em space behind;
  one with an \<^verbatim>\<open>og:title\<close> meta tag and no title; one on which no selector matches; and
  three with a single icon link, whose \<^verbatim>\<open>href\<close> is \<^verbatim>\<open>/icon.png\<close>, the
  protocol-relative \<^verbatim>\<open>//cdn.example.com/i.png\<close> and the file name \<^verbatim>\<open>httpicon.png\<close>.
  \<open>example_URL\<close> is what \<^verbatim>\<open>new URL\<close> gives for the one address used.
\<close>

definition long_title_page :: cheerio where
  "long_title_page selector =
     (if selector = Sel ''title'' []
      then [\<lparr>attribs = [], text_content = replicate 201 0x61\<rparr>]
      else [])"

definition padded_title_page :: cheerio where
  "padded_title_page selector =
     (if selector = Sel ''title'' []
      then [\<lparr>attribs = [],
             text_content = [0x20, 0xA0] @ js ''Example Domain'' @ [0x0A, 0x2003]\<rparr>]
      else [])"

definition og_only_page :: cheerio where
  "og_only_page selector =
     (if selector = Sel ''meta'' [(''property'', ''og:title'')]
      then [\<lparr>attribs = [(''property'', js ''og:title''), (''content'', js ''Example Domain'')],
             text_content = []\<rparr>]
      else [])"

definition blank_page :: cheerio where
  "blank_page selector = []"

definition icon_link :: "string \<Rightarrow> cheerio" where
  "icon_link href selector =
     (if selector = Sel ''link'' [(''rel'', ''icon'')]
      then [\<lparr>attribs = [(''rel'', js ''icon''), (''href'', js href)], text_content = []\<rparr>]
      else [])"

definition example_URL :: "ustring \<Rightarrow> URL option" where
  "example_URL url =
     (if url = js ''https://example.com/page''
      then Some \<lparr>protocol = js ''https:'', hostname = js ''example.com''\<rparr>
      else None)"

definition unreachable_web :: web where
  "unreachable_web = \<lparr>fetch_page = (\<lambda>url. None), new_URL = example_URL\<rparr>"

definition serving :: "cheerio \<Rightarrow> web" where
  "serving page = \<lparr>fetch_page = (\<lambda>url. Some page), new_URL = example_URL\<rparr>"

definition stale_table :: metadata_table where
  "stale_table =
     [\<lparr>row_short_code = js ''AQIDBA'', row_url = js ''https://example.com/page'',
       row_title = js ''Example Domain'', row_description = js ''No description available'',
       row_favicon_url = Some (js ''https://example.com/favicon.ico'')\<rparr>]"

section \<open>Lemmas about the redirect service\<close>

lemma length_encodeURL: "length encodeURL = 64"
  by (simp add: encodeURL_def)

lemma enc6_in_alphabet: "enc6 v \<in> set encodeURL"
proof -
  have "v AND 0x3F \<le> 0x3F"
    by (rule word_and_le1)
  then have "unat (v AND 0x3F) \<le> unat (0x3F :: 64 word)"
    by (simp add: word_le_nat_alt)
  then have "unat (v AND 0x3F) < length encodeURL"
    by (simp add: length_encodeURL)
  then show ?thesis
    unfolding enc6_def by (rule nth_mem)
qed

lemma length_rand_Read: "length (rand_Read b src) = length b"
  by (simp add: rand_Read_def)

lemma six_bytes:
  assumes "length (b :: byte list) = 6"
  obtains b0 b1 b2 b3 b4 b5 where "b = [b0, b1, b2, b3, b4, b5]"
proof -
  from assms obtain b0 r0 where "b = b0 # r0" "length r0 = 5" by (cases b) auto
  moreover then obtain b1 r1 where "r0 = b1 # r1" "length r1 = 4" by (cases r0) auto
  moreover then obtain b2 r2 where "r1 = b2 # r2" "length r2 = 3" by (cases r1) auto
  moreover then obtain b3 r3 where "r2 = b3 # r3" "length r3 = 2" by (cases r2) auto
  moreover then obtain b4 r4 where "r3 = b4 # r4" "length r4 = 1" by (cases r3) auto
  moreover then obtain b5 where "r4 = [b5]" by (cases r4) auto
  ultimately show thesis using that by simp
qed

lemma generateShortCode_shape:
  "length (generateShortCode src) = 6 \<and> set (generateShortCode src) \<subseteq> set encodeURL"
proof -
  have "length (rand_Read (replicate 6 0) src) = 6"
    by (simp add: length_rand_Read)
  then obtain b0 b1 b2 b3 b4 b5 where b: "rand_Read (replicate 6 0) src = [b0, b1, b2, b3, b4, b5]"
    by (rule six_bytes)
  show ?thesis
    by (simp add: generateShortCode_def b Let_def enc6_in_alphabet)
qed

lemma count_rows_nonneg: "0 \<le> count_rows db c"
  by (simp add: count_rows_def)

lemma retry_loop_stop: "\<not> 0 < e \<Longrightarrow> retry_loop db ds i c e = Some (c, i)"
  by (subst retry_loop.simps) simp

lemma retry_loop_step:
  "0 < e \<Longrightarrow> retry_loop db ds i c e =
     retry_loop db ds (Suc i) (generateShortCode (entropy (ds i)))
       (case select_count db (query_fails (ds i)) (generateShortCode (entropy (ds i))) of
          None \<Rightarrow> e | Some n \<Rightarrow> n)"
  by (subst retry_loop.simps) (simp add: Let_def)

lemma retry_loop_reaches:
  "0 < e \<Longrightarrow> i \<le> j \<Longrightarrow> fresh_draw db ds j \<Longrightarrow> (\<forall>k. i \<le> k \<and> k < j \<longrightarrow> \<not> fresh_draw db ds k) \<Longrightarrow>
   retry_loop db ds i c e = Some (generateShortCode (entropy (ds j)), Suc j)"
proof (induction "j - i" arbitrary: i c e)
  case 0
  then have ij: "i = j" by simp
  from 0 show ?case
    by (simp add: retry_loop_step ij fresh_draw_def select_count_def retry_loop_stop)
next
  case (Suc d)
  then have lt: "i < j" by simp
  with Suc.prems have nf: "\<not> fresh_draw db ds i" by simp
  let ?c = "generateShortCode (entropy (ds i))"
  let ?e = "case select_count db (query_fails (ds i)) ?c of None \<Rightarrow> e | Some n \<Rightarrow> n"
  have pos: "0 < ?e"
    using nf Suc.prems(1) count_rows_nonneg [of db ?c]
    by (auto simp: fresh_draw_def select_count_def)
  have "retry_loop db ds (Suc i) ?c ?e = Some (generateShortCode (entropy (ds j)), Suc j)"
  proof (rule Suc.hyps(1))
    show "d = j - Suc i" using Suc.hyps(2) by simp
    show "0 < ?e" by (rule pos)
    show "Suc i \<le> j" using lt by simp
    show "fresh_draw db ds j" by (rule Suc.prems(3))
    show "\<forall>k. Suc i \<le> k \<and> k < j \<longrightarrow> \<not> fresh_draw db ds k" using Suc.prems(4) by simp
  qed
  then show ?case
    by (simp add: retry_loop_step [OF Suc.prems(1)])
qed

lemma retry_loop_Some_fresh:
  assumes "retry_loop db ds i c e = Some y"
  shows "0 < e \<longrightarrow> (\<exists>j\<ge>i. fresh_draw db ds j)"
proof (rule retry_loop.raw_induct
    [where P = "\<lambda>db ds i c e y. 0 < e \<longrightarrow> (\<exists>j\<ge>i. fresh_draw db ds j)", OF _ assms])
  fix f db ds i c e y
  assume IH: "\<And>db ds i c e y. f db ds i c e = Some y \<Longrightarrow> 0 < e \<longrightarrow> (\<exists>j\<ge>i. fresh_draw db ds j)"
    and eq: "(if 0 < e
      then let shortCode' = generateShortCode (entropy (ds i))
           in Let (case select_count db (query_fails (ds i)) shortCode' of
                   None \<Rightarrow> e | Some n \<Rightarrow> n)
               (f db ds (Suc i) shortCode')
      else Some (c, i)) = Some (y :: string \<times> nat)"
  show "0 < e \<longrightarrow> (\<exists>j\<ge>i. fresh_draw db ds j)"
  proof
    assume pos: "0 < e"
    let ?c = "generateShortCode (entropy (ds i))"
    let ?e = "case select_count db (query_fails (ds i)) ?c of None \<Rightarrow> e | Some n \<Rightarrow> n"
    from eq pos have call: "f db ds (Suc i) ?c ?e = Some y"
      by (simp add: Let_def)
    show "\<exists>j\<ge>i. fresh_draw db ds j"
    proof (cases "0 < ?e")
      case True
      with IH [OF call] obtain j where "Suc i \<le> j" "fresh_draw db ds j" by blast
      then show ?thesis by (auto intro: exI [of _ j])
    next
      case False
      with pos have "fresh_draw db ds i"
        using count_rows_nonneg [of db ?c]
        by (auto simp: fresh_draw_def select_count_def split: if_splits)
      then show ?thesis by blast
    qed
  qed
qed

lemma retry_loop_result:
  assumes "retry_loop db ds i c e = Some y" and "0 < e"
  shows "\<exists>j\<ge>i. fresh_draw db ds j \<and> (\<forall>k. i \<le> k \<and> k < j \<longrightarrow> \<not> fresh_draw db ds k)
            \<and> y = (generateShortCode (entropy (ds j)), Suc j)"
proof -
  from retry_loop_Some_fresh [OF assms(1)] assms(2)
  obtain j0 where j0: "i \<le> j0 \<and> fresh_draw db ds j0" by blast
  define j where "j = (LEAST j. i \<le> j \<and> fresh_draw db ds j)"
  have j: "i \<le> j \<and> fresh_draw db ds j"
    unfolding j_def by (rule LeastI [of _ j0]) (rule j0)
  have least: "\<forall>k. i \<le> k \<and> k < j \<longrightarrow> \<not> fresh_draw db ds k"
    unfolding j_def using not_less_Least by blast
  from j least assms(2)
  have "retry_loop db ds i c e = Some (generateShortCode (entropy (ds j)), Suc j)"
    by (intro retry_loop_reaches) auto
  with assms(1) j least show ?thesis by auto
qed

lemma retry_loop_from_first:
  assumes "retry_loop db ds 1 (generateShortCode (entropy (ds 0))) (count_rows db (generateShortCode (entropy (ds 0)))) = Some (c, n)"
    and "\<not> query_fails (ds 0)"
  shows "\<exists>j. fresh_draw db ds j \<and> (\<forall>k<j. \<not> fresh_draw db ds k)
           \<and> c = generateShortCode (entropy (ds j)) \<and> n = Suc j"
proof (cases "0 < count_rows db (generateShortCode (entropy (ds 0)))")
  case True
  from retry_loop_result [OF assms(1) True]
  obtain j where j: "1 \<le> j" "fresh_draw db ds j"
    "\<forall>k. 1 \<le> k \<and> k < j \<longrightarrow> \<not> fresh_draw db ds k"
    "(c, n) = (generateShortCode (entropy (ds j)), Suc j)" by blast
  from True have n0: "\<not> fresh_draw db ds 0" by (simp add: fresh_draw_def)
  have "\<forall>k<j. \<not> fresh_draw db ds k"
  proof (intro allI impI)
    fix k assume "k < j"
    show "\<not> fresh_draw db ds k"
    proof (cases "k = 0")
      case True then show ?thesis using n0 by simp
    next
      case False
      then have "1 \<le> k" by simp
      with j(3) \<open>k < j\<close> show ?thesis by blast
    qed
  qed
  with j show ?thesis by auto
next
  case False
  then have z: "count_rows db (generateShortCode (entropy (ds 0))) = 0"
    using count_rows_nonneg [of db "generateShortCode (entropy (ds 0))"] by simp
  from assms(1) have "(c, n) = (generateShortCode (entropy (ds 0)), 1)"
    by (simp add: retry_loop_stop z)
  moreover have "fresh_draw db ds 0" using z assms(2) by (simp add: fresh_draw_def)
  ultimately show ?thesis by (intro exI [of _ 0]) simp
qed

lemma createShortURL_cases:
  assumes "createShortURL db bound env = Some (resp, db')"
  shows "(\<exists>err. bound = Inl err \<and> resp = JSON 400 (ErrorBody err) \<and> db' = db)
       \<or> (\<exists>req. bound = Inr req \<and> query_fails (draws env 0)
              \<and> resp = JSON 500 (ErrorBody ''Database error'') \<and> db' = db)
       \<or> (\<exists>req j. bound = Inr req \<and> fresh_draw db (draws env) j
              \<and> (\<forall>k<j. \<not> fresh_draw db (draws env) k)
              \<and> (if insert_fails env
                  then resp = JSON 500 (ErrorBody ''Failed to create short URL'') \<and> db' = db
                  else resp = JSON 200 (ShortenResponse (drawn_code env j)
                                 (''http://localhost:8000/'' @ drawn_code env j) (LongURL req))
                     \<and> db' = db @ [\<lparr>short_code = drawn_code env j, long_url = LongURL req\<rparr>]))"
proof (cases bound)
  case (Inl err)
  with assms show ?thesis by (simp add: createShortURL_def)
next
  case (Inr req)
  let ?c0 = "generateShortCode (entropy (draws env 0))"
  show ?thesis
  proof (cases "query_fails (draws env 0)")
    case True
    with assms Inr show ?thesis by (simp add: createShortURL_def select_count_def)
  next
    case False
    from assms Inr False obtain c n where
      loop: "retry_loop db (draws env) 1 ?c0 (count_rows db ?c0) = Some (c, n)"
      and ins: "(case insert_url db (insert_fails env) c (LongURL req) of
                   None \<Rightarrow> Some (JSON 500 (ErrorBody ''Failed to create short URL''), db)
                 | Some d \<Rightarrow> Some (JSON 200 (ShortenResponse c (''http://localhost:8000/'' @ c)
                                 (LongURL req)), d)) = Some (resp, db')"
      by (auto simp: createShortURL_def select_count_def Let_def split: option.splits)
    from retry_loop_from_first [OF loop False]
    obtain j where j: "fresh_draw db (draws env) j" "\<forall>k<j. \<not> fresh_draw db (draws env) k"
      "c = drawn_code env j" by (auto simp: drawn_code_def)
    from j(1,3) have "count_rows db c = 0" by (simp add: fresh_draw_def drawn_code_def)
    with ins have "if insert_fails env
        then resp = JSON 500 (ErrorBody ''Failed to create short URL'') \<and> db' = db
        else resp = JSON 200 (ShortenResponse c (''http://localhost:8000/'' @ c) (LongURL req))
           \<and> db' = db @ [\<lparr>short_code = c, long_url = LongURL req\<rparr>]"
      by (auto simp: insert_url_def split: if_splits)
    with j Inr show ?thesis by auto
  qed
qed

lemma find_append_Some: "find P xs = Some x \<Longrightarrow> find P (xs @ ys) = Some x"
  by (induction xs) (auto split: if_splits)

lemma handle_extends:
  assumes "handle db rq = Some (resp, db')"
  shows "\<exists>added. db' = db @ added"
proof (cases rq)
  case (POST_shorten bound env)
  with assms have "createShortURL db bound env = Some (resp, db')"
    by (simp add: handle_def)
  from createShortURL_cases [OF this] show ?thesis
    by (auto split: if_splits)
next
  case (GET_code c lookup_fails nenv)
  with assms have "db' = db"
    by (auto simp: handle_def redirect_def split: row_scan.splits)
  then show ?thesis by simp
qed

lemma serve_extends:
  "serve db rqs = Some (resps, db') \<Longrightarrow> \<exists>added. db' = db @ added"
proof (induction rqs arbitrary: db resps)
  case Nil
  then show ?case by simp
next
  case (Cons rq rqs)
  from Cons.prems obtain resp db1 resps1 where
    h: "handle db rq = Some (resp, db1)" and s: "serve db1 rqs = Some (resps1, db')"
    by (auto split: option.splits)
  from handle_extends [OF h] obtain a1 where "db1 = db @ a1" ..
  moreover from Cons.IH [OF s] obtain a2 where "db' = db1 @ a2" ..
  ultimately have "db' = db @ (a1 @ a2)" by simp
  then show ?case ..
qed

lemma code_zeros: "generateShortCode [0, 0, 0, 0, 0, 0] = ''AAAAAA''"
  by (simp add: generateShortCode_def rand_Read_def enc6_def encodeURL_def)

lemma code_123456: "generateShortCode [1, 2, 3, 4, 5, 6] = ''AQIDBA''"
  by (simp add: generateShortCode_def rand_Read_def enc6_def encodeURL_def)

lemma demo_create:
  "createShortURL demo_db demo_request demo_env =
     Some (JSON 200 (ShortenResponse ''AQIDBA'' ''http://localhost:8000/AQIDBA'' ''https://example.com''),
           demo_db @ [\<lparr>short_code = ''AQIDBA'', long_url = ''https://example.com''\<rparr>])"
  by (simp add: createShortURL_def demo_db_def demo_draws_def demo_env_def demo_request_def
      code_zeros code_123456 select_count_def count_rows_def retry_loop_step retry_loop_stop
      insert_url_def)

lemma outage_loop_None: "retry_loop demo_db outage_draws 1 ''AAAAAA'' 1 = None"
proof (cases "retry_loop demo_db outage_draws 1 ''AAAAAA'' 1")
  case None
  then show ?thesis .
next
  case (Some y)
  from retry_loop_Some_fresh [OF Some] obtain j where "1 \<le> j" "fresh_draw demo_db outage_draws j"
    by auto
  then have False by (simp add: fresh_draw_def outage_draws_def)
  then show ?thesis ..
qed

lemma demo_serve:
  "serve demo_db demo_session =
     Some ([Redirect 301 ''https://a.example'',
            JSON 200 (ShortenResponse ''AQIDBA'' ''http://localhost:8000/AQIDBA'' ''https://example.com''),
            Redirect 301 ''https://example.com'',
            JSON 500 (ErrorBody ''Database error'')],
           demo_db @ [\<lparr>short_code = ''AQIDBA'', long_url = ''https://example.com''\<rparr>])"
  by (simp add: demo_session_def handle_def demo_create [unfolded demo_db_def] redirect_def
      select_long_url_def demo_db_def)

lemma retry_loop_ends_iff_fresh:
  assumes "0 < e"
  shows "(\<exists>y. retry_loop db ds i c e = Some y) \<longleftrightarrow> (\<exists>j\<ge>i. fresh_draw db ds j)"
proof
  assume "\<exists>y. retry_loop db ds i c e = Some y"
  then obtain y where "retry_loop db ds i c e = Some y" ..
  from retry_loop_Some_fresh [OF this] assms show "\<exists>j\<ge>i. fresh_draw db ds j" by simp
next
  assume "\<exists>j\<ge>i. fresh_draw db ds j"
  then obtain j0 where j0: "i \<le> j0 \<and> fresh_draw db ds j0" by blast
  define j where "j = (LEAST j. i \<le> j \<and> fresh_draw db ds j)"
  have j: "i \<le> j \<and> fresh_draw db ds j"
    unfolding j_def by (rule LeastI [of _ j0]) (rule j0)
  have "\<forall>k. i \<le> k \<and> k < j \<longrightarrow> \<not> fresh_draw db ds k"
    unfolding j_def using not_less_Least by blast
  with j retry_loop_reaches [OF assms, of i j db ds c]
  show "\<exists>y. retry_loop db ds i c e = Some y" by blast
qed

lemma createShortURL_first_fresh:
  assumes q0: "\<not> query_fails (draws env 0)"
    and fj: "fresh_draw db (draws env) j"
    and before: "\<forall>k<j. \<not> fresh_draw db (draws env) k"
  shows "createShortURL db (Inr req) env =
     (if insert_fails env
      then Some (JSON 500 (ErrorBody ''Failed to create short URL''), db)
      else Some (JSON 200 (ShortenResponse (drawn_code env j)
                   (''http://localhost:8000/'' @ drawn_code env j) (LongURL req)),
                 db @ [\<lparr>short_code = drawn_code env j, long_url = LongURL req\<rparr>]))"
proof -
  let ?c0 = "generateShortCode (entropy (draws env 0))"
  have loop: "retry_loop db (draws env) 1 ?c0 (count_rows db ?c0) = Some (drawn_code env j, Suc j)"
  proof (cases "j = 0")
    case True
    with fj have "count_rows db ?c0 = 0" by (simp add: fresh_draw_def)
    with True show ?thesis by (simp add: retry_loop_stop drawn_code_def)
  next
    case False
    with before have "\<not> fresh_draw db (draws env) 0" by simp
    with q0 have pos: "0 < count_rows db ?c0"
      using count_rows_nonneg [of db ?c0] by (auto simp: fresh_draw_def)
    from False have "1 \<le> j" by simp
    moreover from before have "\<forall>k. 1 \<le> k \<and> k < j \<longrightarrow> \<not> fresh_draw db (draws env) k" by simp
    ultimately show ?thesis
      using retry_loop_reaches [OF pos _ fj, of 1 ?c0] by (simp add: drawn_code_def)
  qed
  from fj have "count_rows db (drawn_code env j) = 0"
    by (simp add: fresh_draw_def drawn_code_def)
  with loop q0 show ?thesis
    by (simp add: createShortURL_def select_count_def insert_url_def)
qed

lemma createShortURL_never_fresh:
  assumes q0: "\<not> query_fails (draws env 0)" and none: "\<forall>j. \<not> fresh_draw db (draws env) j"
  shows "createShortURL db (Inr req) env = None"
proof (cases "createShortURL db (Inr req) env")
  case None
  then show ?thesis .
next
  case (Some a)
  obtain resp db' where "a = (resp, db')" by (cases a)
  with Some have "createShortURL db (Inr req) env = Some (resp, db')" by simp
  from createShortURL_cases [OF this] q0 none have False by auto
  then show ?thesis ..
qed







section \<open>Lemmas about the metadata service\<close>

lemma js_eq_Nil [simp]: "js s = [] \<longleftrightarrow> s = []"
  by (simp add: js_def)

lemma trim_unique:
  assumes "\<forall>c\<in>set l. is_white_space c" and "\<forall>c\<in>set r. is_white_space c"
    and "t \<noteq> [] \<longrightarrow> \<not> is_white_space (hd t) \<and> \<not> is_white_space (last t)"
  shows "trim (l @ t @ r) = t"
proof (cases "t = []")
  case True
  with assms(1,2) have "\<forall>c\<in>set (l @ t @ r). is_white_space c" by auto
  then have d: "dropWhile is_white_space (l @ t @ r) = []"
    by (simp only: dropWhile_eq_Nil_conv)
  have "trim (l @ t @ r) = []"
    unfolding trim_def d by simp
  with True show ?thesis by simp
next
  case False
  with assms(3) have h: "\<not> is_white_space (hd t)" and e: "\<not> is_white_space (last t)" by auto
  from False h have "dropWhile is_white_space (t @ r) = t @ r"
    by (cases t) auto
  then have d: "dropWhile is_white_space (l @ t @ r) = t @ r"
    using assms(1) dropWhile_append2 [of l is_white_space "t @ r"] by simp
  from False e have k: "dropWhile is_white_space (rev t) = rev t"
    by (cases "rev t") (auto simp: last_rev hd_rev)
  have "dropWhile is_white_space (rev r @ rev t) = dropWhile is_white_space (rev t)"
    using assms(2) by (intro dropWhile_append2) simp
  with k have "dropWhile is_white_space (rev (t @ r)) = rev t" by simp
  then show ?thesis unfolding trim_def d by simp
qed

lemma favicon_loop_first:
  "falsy init \<Longrightarrow>
   (if falsy (favicon_loop dollar sels init) then None else favicon_loop dollar sels init) =
   (case filter (\<lambda>h. \<not> falsy h) (map (\<lambda>selector. attr (dollar selector) ''href'') sels) of
        [] \<Rightarrow> None | h # _ \<Rightarrow> h)"
proof (induction sels arbitrary: init)
  case Nil
  then show ?case by simp
next
  case (Cons a sels)
  show ?case
  proof (cases "falsy (attr (dollar a) ''href'')")
    case True
    have "favicon_loop dollar (a # sels) init = favicon_loop dollar sels (attr (dollar a) ''href'')"
      using True by (simp add: Let_def)
    moreover have "filter (\<lambda>h. \<not> falsy h) (map (\<lambda>selector. attr (dollar selector) ''href'') (a # sels))
        = filter (\<lambda>h. \<not> falsy h) (map (\<lambda>selector. attr (dollar selector) ''href'') sels)"
      using True by simp
    ultimately show ?thesis
      using Cons.IH [OF True] by (simp only:)
  next
    case False
    then show ?thesis by (simp add: Let_def)
  qed
qed

lemma favicon_loop_first_href:
  "(if falsy (favicon_loop dollar faviconSelectors None) then None
    else favicon_loop dollar faviconSelectors None) = first_href dollar"
  unfolding first_href_def by (rule favicon_loop_first) (simp add: falsy_def)

lemma fetchUrlMetadata_fetched:
  assumes "fetch_page w url = Some dollar"
  shows "fetchUrlMetadata w url =
     (case absolute_favicon w url (favicon_loop dollar faviconSelectors None) of
        None \<Rightarrow> unable_to_fetch
      | Some f \<Rightarrow> \<lparr>title = take 200 (title_chain dollar),
                   description = take 500 (description_chain dollar),
                   favicon_url = Some f\<rparr>)"
  using assms
  by (auto simp: fetchUrlMetadata_def Let_def falsy_def title_chain_def description_chain_def
      js_eq_Nil split: option.splits)

lemma absolute_favicon_parsed:
  assumes "new_URL w url = Some u"
  shows "absolute_favicon w url (favicon_loop dollar faviconSelectors None) =
     Some (case first_href dollar of
             None \<Rightarrow> protocol u @ js ''//'' @ hostname u @ js ''/favicon.ico''
           | Some href \<Rightarrow>
               if startsWith href (js ''/'') then protocol u @ js ''//'' @ hostname u @ href
               else if startsWith href (js ''http'') then href
               else protocol u @ js ''//'' @ hostname u @ js ''/'' @ href)"
  unfolding absolute_favicon_def favicon_loop_first_href
  by (simp add: assms split: option.splits)

lemma fetchUrlMetadata_failed:
  "fetch_page w url = None \<Longrightarrow> fetchUrlMetadata w url = unable_to_fetch"
  by (simp add: fetchUrlMetadata_def)

lemma get_after_insert_or_replace:
  "insert_or_replace db False row = Some db' \<Longrightarrow> get_metadata db' (row_short_code row) = Some row"
proof -
  have "find (\<lambda>r. row_short_code r = c) (filter (\<lambda>r. row_short_code r \<noteq> c) xs @ [row])
        = (if row_short_code row = c then Some row else None)" for c xs
    by (induction xs) auto
  then show "insert_or_replace db False row = Some db' \<Longrightarrow> ?thesis"
    by (auto simp: insert_or_replace_def get_metadata_def)
qed

lemma post_metadata_present:
  assumes "sc \<noteq> []" and "lu \<noteq> []"
  shows "post_metadata db w store_fails (Some sc) (Some lu) =
     (if store_fails then ((500, MetadataError ''Failed to store metadata''), db)
      else ((200, MetadataResult sc lu (title (fetchUrlMetadata w lu))
                    (description (fetchUrlMetadata w lu))
                    (favicon_url (fetchUrlMetadata w lu)) ''success''),
            filter (\<lambda>r. row_short_code r \<noteq> sc) db @
              [\<lparr>row_short_code = sc, row_url = lu, row_title = title (fetchUrlMetadata w lu),
                row_description = description (fetchUrlMetadata w lu),
                row_favicon_url = favicon_url (fetchUrlMetadata w lu)\<rparr>]))"
  using assms by (simp add: post_metadata_def insert_or_replace_def Let_def)

lemma trim_decomposition:
  "\<exists>l r. s = l @ trim s @ r
      \<and> (\<forall>c\<in>set l. is_white_space c) \<and> (\<forall>c\<in>set r. is_white_space c)
      \<and> (trim s \<noteq> [] \<longrightarrow> \<not> is_white_space (hd (trim s)) \<and> \<not> is_white_space (last (trim s)))"
proof -
  define l where "l = takeWhile is_white_space s"
  define m where "m = dropWhile is_white_space s"
  define r where "r = rev (takeWhile is_white_space (rev m))"
  have t: "trim s = rev (dropWhile is_white_space (rev m))"
    by (simp add: trim_def m_def)
  have "rev (dropWhile is_white_space (rev m)) @ rev (takeWhile is_white_space (rev m))
        = rev (takeWhile is_white_space (rev m) @ dropWhile is_white_space (rev m))"
    by (simp only: rev_append)
  also have "\<dots> = m"
    by (simp only: takeWhile_dropWhile_id rev_rev_ident)
  finally have m: "m = trim s @ r"
    by (simp only: t r_def)
  have "s = l @ m"
    by (simp add: l_def m_def)
  then have s: "s = l @ trim s @ r"
    using m by simp
  have wl: "\<forall>c\<in>set l. is_white_space c"
    unfolding l_def by (auto dest: set_takeWhileD)
  have wr: "\<forall>c\<in>set r. is_white_space c"
    unfolding r_def by (auto dest: set_takeWhileD)
  have ends: "\<not> is_white_space (hd (trim s)) \<and> \<not> is_white_space (last (trim s))"
    if ne: "trim s \<noteq> []"
  proof
    from ne m have "m \<noteq> []" by auto
    then have "\<not> is_white_space (hd m)"
      unfolding m_def by (rule hd_dropWhile)
    moreover from ne m have "hd m = hd (trim s)" by (metis hd_append2)
    ultimately show "\<not> is_white_space (hd (trim s))" by simp
    from ne have "dropWhile is_white_space (rev m) \<noteq> []" by (simp add: t)
    then have "\<not> is_white_space (hd (dropWhile is_white_space (rev m)))"
      by (rule hd_dropWhile)
    then show "\<not> is_white_space (last (trim s))"
      using ne by (simp add: t last_rev)
  qed
  from s wl wr ends show ?thesis by blast
qed

section \<open>The claims\<close>

subsection \<open>C1: the inserted code is absent from the table\<close>

text \<open>
  Claim C1. A request that does not bind is answered with status 400 and a failing
  first existence query with status 500, both without an insert. For a request that
  binds and a first existence query that succeeds, the handler redraws and rechecks
  until it reaches the first draw \<open>j\<close> whose query succeeds and counts no row with
  the drawn code in the table, having passed over
  every draw before it (a code counted in the table, or a query inside the loop that
  failed), and only then inserts: it answers with that code and appends the pair of
  that code and the requested target, or answers 500 with the table unchanged when
  the insert fails. When no draw is of that kind it never returns. Conversely,
  whenever the handler returns, either nothing was inserted and the answer is an
  error, or the one appended row carries the code of such a first draw, absent from
  the table at its existence check.
\<close>

theorem createShortURL_inserts_absent_code:
  "(bound = Inl err \<longrightarrow>
      createShortURL db bound env = Some (JSON 400 (ErrorBody err), db))
   \<and> (bound = Inr req \<and> query_fails (draws env 0) \<longrightarrow>
      createShortURL db bound env = Some (JSON 500 (ErrorBody ''Database error''), db))
   \<and> (bound = Inr req \<and> \<not> query_fails (draws env 0)
      \<and> \<not> query_fails (draws env j) \<and> count_rows db (drawn_code env j) = 0
      \<and> (\<forall>k<j. query_fails (draws env k) \<or> 0 < count_rows db (drawn_code env k))
    \<longrightarrow> createShortURL db bound env =
          (if insert_fails env
           then Some (JSON 500 (ErrorBody ''Failed to create short URL''), db)
           else Some (JSON 200 (ShortenResponse (drawn_code env j)
                        (''http://localhost:8000/'' @ drawn_code env j) (LongURL req)),
                      db @ [\<lparr>short_code = drawn_code env j, long_url = LongURL req\<rparr>])))
   \<and> (bound = Inr req \<and> \<not> query_fails (draws env 0)
      \<and> (\<forall>k. query_fails (draws env k) \<or> 0 < count_rows db (drawn_code env k))
    \<longrightarrow> createShortURL db bound env = None)
   \<and> (createShortURL db bound env = Some (resp, db') \<longrightarrow>
        (db' = db \<and> (\<exists>status msg. resp = JSON status (ErrorBody msg))) \<or>
        (\<exists>req j. bound = Inr req
           \<and> \<not> query_fails (draws env j)
           \<and> count_rows db (drawn_code env j) = 0
           \<and> (\<forall>k<j. query_fails (draws env k) \<or> 0 < count_rows db (drawn_code env k))
           \<and> db' = db @ [\<lparr>short_code = drawn_code env j, long_url = LongURL req\<rparr>]
           \<and> resp = JSON 200 (ShortenResponse (drawn_code env j)
                       (''http://localhost:8000/'' @ drawn_code env j) (LongURL req))))"
proof -
  have nf: "\<not> fresh_draw db (draws env) k \<longleftrightarrow>
            query_fails (draws env k) \<or> 0 < count_rows db (drawn_code env k)" for k
    using count_rows_nonneg [of db "drawn_code env k"]
    by (auto simp: fresh_draw_def drawn_code_def)
  have f: "fresh_draw db (draws env) k \<longleftrightarrow>
            \<not> query_fails (draws env k) \<and> count_rows db (drawn_code env k) = 0" for k
    by (simp add: fresh_draw_def drawn_code_def)
  have one: "bound = Inr req \<and> \<not> query_fails (draws env 0)
      \<and> \<not> query_fails (draws env j) \<and> count_rows db (drawn_code env j) = 0
      \<and> (\<forall>k<j. query_fails (draws env k) \<or> 0 < count_rows db (drawn_code env k))
    \<longrightarrow> createShortURL db bound env =
          (if insert_fails env
           then Some (JSON 500 (ErrorBody ''Failed to create short URL''), db)
           else Some (JSON 200 (ShortenResponse (drawn_code env j)
                        (''http://localhost:8000/'' @ drawn_code env j) (LongURL req)),
                      db @ [\<lparr>short_code = drawn_code env j, long_url = LongURL req\<rparr>]))"
    using createShortURL_first_fresh [of env db j req]
    unfolding nf [symmetric] f by auto
  have two: "bound = Inr req \<and> \<not> query_fails (draws env 0)
      \<and> (\<forall>k. query_fails (draws env k) \<or> 0 < count_rows db (drawn_code env k))
    \<longrightarrow> createShortURL db bound env = None"
    using createShortURL_never_fresh [of env db req]
    unfolding nf [symmetric] by auto
  have three: "createShortURL db bound env = Some (resp, db') \<longrightarrow>
        (db' = db \<and> (\<exists>status msg. resp = JSON status (ErrorBody msg))) \<or>
        (\<exists>req j. bound = Inr req
           \<and> \<not> query_fails (draws env j)
           \<and> count_rows db (drawn_code env j) = 0
           \<and> (\<forall>k<j. query_fails (draws env k) \<or> 0 < count_rows db (drawn_code env k))
           \<and> db' = db @ [\<lparr>short_code = drawn_code env j, long_url = LongURL req\<rparr>]
           \<and> resp = JSON 200 (ShortenResponse (drawn_code env j)
                       (''http://localhost:8000/'' @ drawn_code env j) (LongURL req)))"
  proof
    assume "createShortURL db bound env = Some (resp, db')"
    from createShortURL_cases [OF this] show "(db' = db \<and> (\<exists>status msg. resp = JSON status (ErrorBody msg))) \<or>
        (\<exists>req j. bound = Inr req
           \<and> \<not> query_fails (draws env j)
           \<and> count_rows db (drawn_code env j) = 0
           \<and> (\<forall>k<j. query_fails (draws env k) \<or> 0 < count_rows db (drawn_code env k))
           \<and> db' = db @ [\<lparr>short_code = drawn_code env j, long_url = LongURL req\<rparr>]
           \<and> resp = JSON 200 (ShortenResponse (drawn_code env j)
                       (''http://localhost:8000/'' @ drawn_code env j) (LongURL req)))"
      unfolding nf [symmetric]
      by (auto simp: fresh_draw_def drawn_code_def split: if_splits)
  qed
  have bad: "bound = Inl err \<longrightarrow>
      createShortURL db bound env = Some (JSON 400 (ErrorBody err), db)"
    by (simp add: createShortURL_def)
  have down: "bound = Inr req \<and> query_fails (draws env 0) \<longrightarrow>
      createShortURL db bound env = Some (JSON 500 (ErrorBody ''Database error''), db)"
    by (simp add: createShortURL_def select_count_def)
  from bad down one two three show ?thesis by blast
qed

text \<open>
  The theorem at the table holding \<open>AAAAAA\<close>: draws 0 and 1 collide, the query of
  draw 2 fails, draw 3 is absent from the table, and the handler inserts its code
  \<open>AQIDBA\<close>.
\<close>

theorem createShortURL_inserts_absent_code_witness:
  "\<not> query_fails (draws demo_env 0)
   \<and> 0 < count_rows demo_db (drawn_code demo_env 0)
   \<and> 0 < count_rows demo_db (drawn_code demo_env 1)
   \<and> query_fails (draws demo_env 2)
   \<and> \<not> query_fails (draws demo_env 3)
   \<and> count_rows demo_db (drawn_code demo_env 3) = 0
   \<and> createShortURL demo_db demo_request demo_env =
       Some (JSON 200 (ShortenResponse ''AQIDBA'' ''http://localhost:8000/AQIDBA'' ''https://example.com''),
             demo_db @ [\<lparr>short_code = ''AQIDBA'', long_url = ''https://example.com''\<rparr>])"
proof -
  have d0: "\<not> query_fails (draws demo_env 0)" "0 < count_rows demo_db (drawn_code demo_env 0)"
    by (simp_all add: demo_env_def demo_draws_def drawn_code_def code_zeros demo_db_def count_rows_def)
  have d1: "0 < count_rows demo_db (drawn_code demo_env 1)"
    by (simp add: demo_env_def demo_draws_def drawn_code_def code_zeros demo_db_def count_rows_def)
  have d2: "query_fails (draws demo_env 2)"
    by (simp add: demo_env_def demo_draws_def)
  have c3: "drawn_code demo_env 3 = ''AQIDBA''"
    by (simp add: demo_env_def demo_draws_def drawn_code_def code_123456)
  have d3: "\<not> query_fails (draws demo_env 3)" "count_rows demo_db (drawn_code demo_env 3) = 0"
    by (simp_all add: c3) (simp_all add: demo_env_def demo_draws_def demo_db_def count_rows_def)
  have before: "\<forall>k<3. query_fails (draws demo_env k) \<or> 0 < count_rows demo_db (drawn_code demo_env k)"
  proof (intro allI impI)
    fix k :: nat assume "k < 3"
    then have "k = 0 \<or> k = 1 \<or> k = 2" by auto
    with d0 d1 d2
    show "query_fails (draws demo_env k) \<or> 0 < count_rows demo_db (drawn_code demo_env k)"
      by auto
  qed
  have i: "\<not> insert_fails demo_env" by (simp add: demo_env_def)
  have "createShortURL demo_db demo_request demo_env =
       Some (JSON 200 (ShortenResponse (drawn_code demo_env 3)
               (''http://localhost:8000/'' @ drawn_code demo_env 3) ''https://example.com''),
             demo_db @ [\<lparr>short_code = drawn_code demo_env 3, long_url = ''https://example.com''\<rparr>])"
    using createShortURL_inserts_absent_code
      [where bound = demo_request and req = "ShortenRequest ''https://example.com''"
        and env = demo_env and j = 3 and db = demo_db,
        THEN conjunct2, THEN conjunct2, THEN conjunct1]
      d0 d3 before i
    by (simp add: demo_request_def)
  with d0 d1 d2 d3 show ?thesis by (simp add: c3)
qed

subsection \<open>C2: shape of the returned code\<close>

text \<open>
  Claim C2. The short code in a successful answer of the creation handler has exactly
  six characters, each of them in the URL-safe base64 alphabet.
\<close>

theorem shorten_response_code_shape:
  assumes "createShortURL db bound env = Some (JSON 200 (ShortenResponse code short_url target), db')"
  shows "length code = 6 \<and> set code \<subseteq> set encodeURL"
  using createShortURL_cases [OF assms] generateShortCode_shape
  by (auto simp: drawn_code_def split: if_splits)

text \<open>
  The theorem at the creation that answers with \<open>AQIDBA\<close>.
\<close>

theorem shorten_response_code_shape_witness:
  "createShortURL demo_db demo_request demo_env =
     Some (JSON 200 (ShortenResponse ''AQIDBA'' ''http://localhost:8000/AQIDBA'' ''https://example.com''),
           demo_db @ [\<lparr>short_code = ''AQIDBA'', long_url = ''https://example.com''\<rparr>])
   \<and> length ''AQIDBA'' = 6 \<and> set ''AQIDBA'' \<subseteq> set encodeURL"
  using shorten_response_code_shape [OF demo_create] demo_create
  by simp

subsection \<open>C3: termination of the retry loop\<close>

text \<open>
  Claim C3. The retry loop has no retry cap and no failure path, and it ends in every
  run in which the stream of drawn codes eventually contains a code that is absent
  from the table. The code departs from the claim when the store fails inside the
  loop: the query before the loop has its error checked and answered with status 500,
  the query inside the loop has its error dropped, and a failed query leaves the count
  as it was. After one collision on \<open>AAAAAA\<close> every later draw is the absent code
  \<open>AQIDBA\<close>, each of its queries fails, and neither the loop nor the handler ever
  returns. (With queries that succeed the loop ends exactly at the first absent code,
  which is \<open>retry_loop_ends_iff_fresh\<close> and \<open>retry_loop_reaches\<close>.)
\<close>

theorem createShortURL_outage_never_returns:
  "count_rows demo_db (generateShortCode (entropy (outage_draws 1))) = 0
   \<and> retry_loop demo_db outage_draws 1 ''AAAAAA'' 1 = None
   \<and> createShortURL demo_db demo_request outage_env = None"
proof -
  have a: "count_rows demo_db (generateShortCode (entropy (outage_draws 1))) = 0"
    by (simp add: outage_draws_def code_123456 demo_db_def count_rows_def)
  have c: "createShortURL demo_db demo_request outage_env = None"
    using outage_loop_None
    by (simp add: createShortURL_def demo_request_def outage_env_def outage_draws_def code_zeros
        select_count_def count_rows_def demo_db_def)
  from a outage_loop_None c show ?thesis by simp
qed

subsection \<open>C4: the three answers of the redirect route\<close>




subsection \<open>C5: the notification does not reach the answer\<close>

text \<open>
  Claim C5. Two runs of the redirect route on the same table, the same code and the
  same outcome of the lookup, which differ only in what happens to the click
  notification, give the same answer. The table is left as it was (nothing is queued),
  at most one POST is sent (nothing is retried), and what remains of the outcome is at
  most one log line.
\<close>

theorem redirect_ignores_notification:
  "fst (redirect db lookup_fails c n1) = fst (redirect db lookup_fails c n2)
   \<and> fst (snd (redirect db lookup_fails c n1)) = db
   \<and> length (filter is_Post (snd (snd (redirect db lookup_fails c n1)))) \<le> 1
   \<and> length (filter (\<lambda>e. \<not> is_Post e) (snd (snd (redirect db lookup_fails c n1)))) \<le> 1"
  by (auto simp: redirect_def sendClickEvent_def is_Post_def Let_def
      split: row_scan.splits option.splits post_result.splits)

text \<open>
  The theorem at a refused connection and at a delivered notification: the answers
  agree while the effects of the two runs differ.
\<close>

theorem redirect_ignores_notification_witness:
  "fst (redirect demo_db False ''AAAAAA'' demo_notify)
     = fst (redirect demo_db False ''AAAAAA'' delivered_notify)
   \<and> fst (redirect demo_db False ''AAAAAA'' demo_notify) = Redirect 301 ''https://a.example''
   \<and> snd (snd (redirect demo_db False ''AAAAAA'' demo_notify))
     \<noteq> snd (snd (redirect demo_db False ''AAAAAA'' delivered_notify))"
proof -
  have "fst (redirect demo_db False ''AAAAAA'' demo_notify) = Redirect 301 ''https://a.example''"
    by (simp add: redirect_def select_long_url_def demo_db_def)
  moreover have "snd (snd (redirect demo_db False ''AAAAAA'' demo_notify))
     \<noteq> snd (snd (redirect demo_db False ''AAAAAA'' delivered_notify))"
    by (simp add: redirect_def select_long_url_def demo_db_def sendClickEvent_def
        demo_notify_def delivered_notify_def)
  ultimately show ?thesis
    using redirect_ignores_notification [of demo_db False "''AAAAAA''" demo_notify delivered_notify]
    by simp
qed

subsection \<open>C6: stored mappings are never changed\<close>

text \<open>
  Claim C6. Along every sequence of requests that the service answers, the table only
  grows at its end: no row is updated or deleted. A code that resolves to a row before
  the sequence resolves to the same row after it, and a lookup of the code is answered
  with the same permanent redirect before and after.
\<close>

theorem stored_mapping_immutable:
  assumes "serve db rqs = Some (resps, db')"
    and "find (\<lambda>r. short_code r = c) db = Some r"
  shows "(\<exists>added. db' = db @ added)
     \<and> find (\<lambda>r. short_code r = c) db' = Some r
     \<and> fst (redirect db False c n1) = Redirect 301 (long_url r)
     \<and> fst (redirect db' False c n2) = Redirect 301 (long_url r)"
proof -
  from serve_extends [OF assms(1)] obtain added where e: "db' = db @ added" ..
  then have f: "find (\<lambda>r. short_code r = c) db' = Some r"
    using assms(2) by (simp add: find_append_Some)
  from e f assms(2) show ?thesis
    by (auto simp: redirect_def select_long_url_def)
qed

text \<open>
  The theorem at a session of a lookup, a creation, a lookup of the new code and a
  lookup that fails in the store.
\<close>

theorem stored_mapping_immutable_witness:
  "serve demo_db demo_session =
     Some ([Redirect 301 ''https://a.example'',
            JSON 200 (ShortenResponse ''AQIDBA'' ''http://localhost:8000/AQIDBA'' ''https://example.com''),
            Redirect 301 ''https://example.com'',
            JSON 500 (ErrorBody ''Database error'')],
           demo_db @ [\<lparr>short_code = ''AQIDBA'', long_url = ''https://example.com''\<rparr>])
   \<and> find (\<lambda>r. short_code r = ''AAAAAA'') demo_db
        = Some \<lparr>short_code = ''AAAAAA'', long_url = ''https://a.example''\<rparr>
   \<and> find (\<lambda>r. short_code r = ''AAAAAA'')
        (demo_db @ [\<lparr>short_code = ''AQIDBA'', long_url = ''https://example.com''\<rparr>])
        = Some \<lparr>short_code = ''AAAAAA'', long_url = ''https://a.example''\<rparr>
   \<and> fst (redirect (demo_db @ [\<lparr>short_code = ''AQIDBA'', long_url = ''https://example.com''\<rparr>])
             False ''AAAAAA'' demo_notify) = Redirect 301 ''https://a.example''"
proof -
  have f: "find (\<lambda>r. short_code r = ''AAAAAA'') demo_db
        = Some \<lparr>short_code = ''AAAAAA'', long_url = ''https://a.example''\<rparr>"
    by (simp add: demo_db_def)
  from stored_mapping_immutable [OF demo_serve f, of demo_notify demo_notify] demo_serve f
  show ?thesis by simp
qed

subsection \<open>C7: the title chain\<close>

text \<open>
  Claim C7 says that the extracted title equals the trimmed text of the title element
  whenever that text is not empty. On a page whose title has 201 letters the trimmed
  text is those 201 letters, and the extracted title is the first 200 of them.
\<close>

theorem title_chain_counterexample:
  "trim (text_of (long_title_page (Sel ''title'' []))) = replicate 201 0x61
   \<and> title (fetchUrlMetadata (serving long_title_page) (js ''https://example.com/page''))
       = replicate 200 0x61
   \<and> title (fetchUrlMetadata (serving long_title_page) (js ''https://example.com/page''))
       \<noteq> trim (text_of (long_title_page (Sel ''title'' [])))"
proof -
  have t: "trim (text_of (long_title_page (Sel ''title'' []))) = replicate 201 0x61"
    by (simp add: long_title_page_def text_of_def trim_def is_white_space_def)
  have "title (fetchUrlMetadata (serving long_title_page) (js ''https://example.com/page''))
        = take 200 (title_chain long_title_page)"
    by (simp add: fetchUrlMetadata_fetched [of _ _ long_title_page] serving_def
        absolute_favicon_parsed
          [of _ _ "\<lparr>protocol = js ''https:'', hostname = js ''example.com''\<rparr>"]
        example_URL_def)
  then have c: "title (fetchUrlMetadata (serving long_title_page) (js ''https://example.com/page''))
        = replicate 200 0x61"
    by (simp add: title_chain_def t)
  have "length (replicate 200 (0x61 :: 16 word)) \<noteq> length (replicate 201 (0x61 :: 16 word))"
    by simp
  then have "replicate 200 (0x61 :: 16 word) \<noteq> replicate 201 0x61"
    by (rule contrapos_nn) (erule arg_cong)
  with t c show ?thesis by simp
qed

text \<open>
  Claim C7, amended. For a page that was fetched and loaded, the extracted title is the
  first 200 code units of the value of the chain: the text of the title elements with
  the white space at both ends removed, when something remains; otherwise the content
  of the first \<^verbatim>\<open>og:title\<close> meta tag when it is present and not empty; otherwise the
  literal \<open>No title found\<close>. The trimmed text is stated without \<open>trim\<close>: whenever the
  text is \<open>l @ t @ r\<close> with \<open>l\<close> and \<open>r\<close> white space and \<open>t\<close> empty or without white
  space at its ends, \<open>t\<close> is what the chain starts from; every text has such a
  decomposition (\<open>trim_decomposition\<close>). (The address of a fetched page is one that
  \<^verbatim>\<open>new URL\<close> accepts, which is the second assumption.)
\<close>

theorem fetched_title_chain:
  assumes "fetch_page w url = Some dollar" and "new_URL w url = Some u"
    and "text_of (dollar (Sel ''title'' [])) = l @ t @ r"
    and "\<forall>c\<in>set l. is_white_space c" and "\<forall>c\<in>set r. is_white_space c"
    and "t \<noteq> [] \<longrightarrow> \<not> is_white_space (hd t) \<and> \<not> is_white_space (last t)"
  shows "title (fetchUrlMetadata w url) =
     take 200
       (if t \<noteq> [] then t
        else case attr (dollar (Sel ''meta'' [(''property'', ''og:title'')])) ''content'' of
               None \<Rightarrow> js ''No title found''
             | Some c \<Rightarrow> if c = [] then js ''No title found'' else c)"
proof -
  have "trim (text_of (dollar (Sel ''title'' []))) = t"
    unfolding assms(3) by (rule trim_unique) (rule assms(4) assms(5) assms(6))+
  then show ?thesis
    by (simp add: fetchUrlMetadata_fetched [OF assms(1)] absolute_favicon_parsed [OF assms(2)]
        title_chain_def)
qed

text \<open>
  The theorem at the page whose title \<open>Example Domain\<close> is padded with a space, a
  no-break space, a line feed and an em space, where the title is the text without
  the padding; at the page with only an \<^verbatim>\<open>og:title\<close> meta tag, where the title is its
  content; and at the page with neither, where it is the literal.
\<close>

theorem fetched_title_chain_witness:
  "text_of (padded_title_page (Sel ''title'' [])) = [0x20, 0xA0] @ js ''Example Domain'' @ [0x0A, 0x2003]
   \<and> title (fetchUrlMetadata (serving padded_title_page) (js ''https://example.com/page''))
       = js ''Example Domain''
   \<and> title (fetchUrlMetadata (serving og_only_page) (js ''https://example.com/page''))
       = js ''Example Domain''
   \<and> title (fetchUrlMetadata (serving blank_page) (js ''https://example.com/page''))
       = js ''No title found''"
proof -
  have f: "fetch_page (serving page) (js ''https://example.com/page'') = Some page" for page
    by (simp add: serving_def)
  have u: "new_URL (serving page) (js ''https://example.com/page'')
     = Some \<lparr>protocol = js ''https:'', hostname = js ''example.com''\<rparr>" for page
    by (simp add: serving_def example_URL_def)
  have p: "text_of (padded_title_page (Sel ''title'' []))
      = [0x20, 0xA0] @ js ''Example Domain'' @ [0x0A, 0x2003]"
    by (simp add: padded_title_page_def text_of_def)
  have pl: "\<forall>c\<in>set [0x20, 0xA0 :: 16 word]. is_white_space c"
    and pr: "\<forall>c\<in>set [0x0A, 0x2003 :: 16 word]. is_white_space c"
    by (simp_all add: is_white_space_def)
  have pt: "js ''Example Domain'' \<noteq> [] \<longrightarrow>
      \<not> is_white_space (hd (js ''Example Domain'')) \<and> \<not> is_white_space (last (js ''Example Domain''))"
    by (simp add: js_def is_white_space_def)
  have e: "text_of (page (Sel ''title'' [])) = [] @ [] @ []"
    if "page (Sel ''title'' []) = []" for page
    using that by (simp add: text_of_def)
  have n: "\<forall>c\<in>set ([] :: ustring). is_white_space c"
    and m: "([] :: ustring) \<noteq> [] \<longrightarrow> \<not> is_white_space (hd []) \<and> \<not> is_white_space (last [])"
    by simp_all
  have "title (fetchUrlMetadata (serving padded_title_page) (js ''https://example.com/page''))
       = js ''Example Domain''"
    using fetched_title_chain [where l = "[0x20, 0xA0]" and t = "js ''Example Domain''"
        and r = "[0x0A, 0x2003]",
        OF f [of padded_title_page] u [of padded_title_page] p pl pr pt]
    by (simp add: js_def)
  moreover
  have "title (fetchUrlMetadata (serving og_only_page) (js ''https://example.com/page''))
       = js ''Example Domain''"
    using fetched_title_chain [where l = "[]" and t = "[]" and r = "[]" and dollar = og_only_page,
        OF f [of og_only_page] u [of og_only_page] e [of og_only_page] n n m]
    by (simp add: og_only_page_def attr_def js_def)
  moreover
  have "title (fetchUrlMetadata (serving blank_page) (js ''https://example.com/page''))
       = js ''No title found''"
    using fetched_title_chain [where l = "[]" and t = "[]" and r = "[]" and dollar = blank_page,
        OF f [of blank_page] u [of blank_page] e [of blank_page] n n m]
    by (simp add: blank_page_def attr_def js_def)
  ultimately show ?thesis using p by simp
qed

subsection \<open>C8: the favicon\<close>

text \<open>
  Claim C8. The favicon is the first \<^verbatim>\<open>href\<close> found by the ordered list of link
  selectors, made absolute against the scheme and host of the target when it is
  relative, and the address of \<^verbatim>\<open>/favicon.ico\<close> on that host when no link is found.
  The code keeps to this for the link \<^verbatim>\<open>/icon.png\<close> on \<^verbatim>\<open>https://example.com/page\<close>,
  which becomes \<^verbatim>\<open>https://example.com/icon.png\<close>, and departs from it in the test of
  what is relative. The protocol-relative link \<^verbatim>\<open>//cdn.example.com/i.png\<close> starts
  with a slash, so the first branch glues it behind the host of the target, and it
  never reaches the branch that the source comments as handling protocol-relative
  addresses; resolved against the target it is \<^verbatim>\<open>https://cdn.example.com/i.png\<close>. The
  relative link \<^verbatim>\<open>httpicon.png\<close> starts with the letters \<^verbatim>\<open>http\<close> and is returned as
  it is, unresolved.
\<close>

theorem favicon_relative_href_evaluation:
  "favicon_url (fetchUrlMetadata (serving (icon_link ''/icon.png'')) (js ''https://example.com/page''))
     = Some (js ''https://example.com/icon.png'')
   \<and> favicon_url (fetchUrlMetadata (serving blank_page) (js ''https://example.com/page''))
     = Some (js ''https://example.com/favicon.ico'')
   \<and> favicon_url (fetchUrlMetadata (serving (icon_link ''//cdn.example.com/i.png''))
        (js ''https://example.com/page''))
     = Some (js ''https://example.com//cdn.example.com/i.png'')
   \<and> favicon_url (fetchUrlMetadata (serving (icon_link ''httpicon.png''))
        (js ''https://example.com/page''))
     = Some (js ''httpicon.png'')"
proof -
  have f: "fetch_page (serving page) (js ''https://example.com/page'') = Some page" for page
    by (simp add: serving_def)
  have u: "new_URL (serving page) (js ''https://example.com/page'')
     = Some \<lparr>protocol = js ''https:'', hostname = js ''example.com''\<rparr>" for page
    by (simp add: serving_def example_URL_def)
  have h: "first_href (icon_link href) = (if href = [] then None else Some (js href))" for href
    by (simp add: first_href_def faviconSelectors_def icon_link_def attr_def falsy_def)
  have b: "first_href blank_page = None"
    by (simp add: first_href_def faviconSelectors_def blank_page_def attr_def falsy_def)
  have v: "favicon_url (fetchUrlMetadata (serving page) (js ''https://example.com/page'')) =
     Some (case first_href page of
             None \<Rightarrow> js ''https:'' @ js ''//'' @ js ''example.com'' @ js ''/favicon.ico''
           | Some href \<Rightarrow>
               if startsWith href (js ''/'')
               then js ''https:'' @ js ''//'' @ js ''example.com'' @ href
               else if startsWith href (js ''http'') then href
               else js ''https:'' @ js ''//'' @ js ''example.com'' @ js ''/'' @ href)" for page
    by (simp add: fetchUrlMetadata_fetched [OF f] absolute_favicon_parsed [OF u]
        split: option.splits)
  show ?thesis
    unfolding v h b by (simp add: startsWith_def js_def)
qed

subsection \<open>C9: a failed fetch is stored and answered\<close>

text \<open>
  Claim C9 says that every request with both fields whose fetch fails is answered with
  status 200 and its placeholder stored. When the write to the store fails as well,
  the answer is status 500 and the table keeps the earlier record.
\<close>

theorem post_metadata_store_failure_counterexample:
  "fetch_page unreachable_web (js ''https://example.com/page'') = None \<and>
   post_metadata stale_table unreachable_web True (Some (js ''AQIDBA'')) (Some (js ''https://example.com/page''))
     = ((500, MetadataError ''Failed to store metadata''), stale_table)"
  by (simp add: unreachable_web_def post_metadata_def insert_or_replace_def)

text \<open>
  Claim C9, amended. For a request with both fields present whose fetch or load fails,
  the extraction does not pass the error on but produces the fixed placeholder. When
  the write to the store succeeds, the placeholder becomes the one record of that
  code, replacing any earlier one, and the answer is status 200 with the placeholder
  and the status field \<open>success\<close>. When the write fails, the answer is status 500 and
  the table is unchanged.
\<close>

theorem post_metadata_fetch_failure:
  assumes "sc \<noteq> []" and "lu \<noteq> []" and "fetch_page w lu = None"
  shows "fetchUrlMetadata w lu = unable_to_fetch
     \<and> (store_fails \<longrightarrow>
          post_metadata db w store_fails (Some sc) (Some lu)
            = ((500, MetadataError ''Failed to store metadata''), db))
     \<and> (\<not> store_fails \<longrightarrow>
          fst (post_metadata db w store_fails (Some sc) (Some lu))
            = (200, MetadataResult sc lu (js ''Unable to fetch title'')
                      (js ''Could not retrieve page information'') None ''success'')
          \<and> get_metadata (snd (post_metadata db w store_fails (Some sc) (Some lu))) sc
            = Some \<lparr>row_short_code = sc, row_url = lu, row_title = (js ''Unable to fetch title''),
                     row_description = (js ''Could not retrieve page information''),
                     row_favicon_url = None\<rparr>
          \<and> length (filter (\<lambda>r. row_short_code r = sc)
                (snd (post_metadata db w store_fails (Some sc) (Some lu)))) = 1)"
proof -
  have m: "fetchUrlMetadata w lu = unable_to_fetch"
    by (rule fetchUrlMetadata_failed) (rule assms(3))
  have one: "length (filter (\<lambda>r. row_short_code r = sc)
               (filter (\<lambda>r. row_short_code r \<noteq> sc) db @ [row])) = 1"
    if "row_short_code row = sc" for row
    using that by (induction db) auto
  have g: "get_metadata (filter (\<lambda>r. row_short_code r \<noteq> row_short_code row) db @ [row])
             (row_short_code row) = Some row" for row
    by (rule get_after_insert_or_replace) (simp add: insert_or_replace_def)
  show ?thesis
    using g [of "\<lparr>row_short_code = sc, row_url = lu, row_title = (js ''Unable to fetch title''),
                     row_description = (js ''Could not retrieve page information''),
                     row_favicon_url = None\<rparr>"]
    by (simp add: m post_metadata_present [OF assms(1,2)] unable_to_fetch_def one)
qed

text \<open>
  The theorem at an unreachable target, on a table that holds an earlier record of
  the code.
\<close>

theorem post_metadata_fetch_failure_witness:
  "(js ''AQIDBA'') \<noteq> [] \<and> (js ''https://example.com/page'') \<noteq> []
   \<and> fetch_page unreachable_web (js ''https://example.com/page'') = None
   \<and> post_metadata stale_table unreachable_web False (Some (js ''AQIDBA'')) (Some (js ''https://example.com/page''))
       = ((200, MetadataResult (js ''AQIDBA'') (js ''https://example.com/page'') (js ''Unable to fetch title'')
                  (js ''Could not retrieve page information'') None ''success''),
          [\<lparr>row_short_code = (js ''AQIDBA''), row_url = (js ''https://example.com/page''),
            row_title = (js ''Unable to fetch title''),
            row_description = (js ''Could not retrieve page information''),
            row_favicon_url = None\<rparr>])
   \<and> get_metadata (snd (post_metadata stale_table unreachable_web False (Some (js ''AQIDBA''))
         (Some (js ''https://example.com/page'')))) (js ''AQIDBA'')
       = Some \<lparr>row_short_code = (js ''AQIDBA''), row_url = (js ''https://example.com/page''),
                row_title = (js ''Unable to fetch title''),
                row_description = (js ''Could not retrieve page information''),
                row_favicon_url = None\<rparr>"
proof -
  have a: "(js ''AQIDBA'') \<noteq> []" and b: "(js ''https://example.com/page'') \<noteq> []"
    by (simp_all add: js_eq_Nil)
  have c: "fetch_page unreachable_web (js ''https://example.com/page'') = None"
    by (simp add: unreachable_web_def)
  have d: "post_metadata stale_table unreachable_web False (Some (js ''AQIDBA'')) (Some (js ''https://example.com/page''))
       = ((200, MetadataResult (js ''AQIDBA'') (js ''https://example.com/page'') (js ''Unable to fetch title'')
                  (js ''Could not retrieve page information'') None ''success''),
          [\<lparr>row_short_code = (js ''AQIDBA''), row_url = (js ''https://example.com/page''),
            row_title = (js ''Unable to fetch title''),
            row_description = (js ''Could not retrieve page information''),
            row_favicon_url = None\<rparr>])"
    by (simp add: post_metadata_def insert_or_replace_def fetchUrlMetadata_def unreachable_web_def
        unable_to_fetch_def stale_table_def)
  from post_metadata_fetch_failure [OF a b c, of False stale_table] a b c d
  show ?thesis by simp
qed

subsection \<open>C10: the favicon of a failed fetch\<close>

text \<open>
  Claim C10. When the fetch or load fails, the favicon of the result is null; the
  address ending in \<^verbatim>\<open>/favicon.ico\<close> is only made for a page that was fetched. For a
  request with both fields present this null is the favicon of the record stored for
  the code and of the answer to the caller; a failing write stores and returns no
  favicon at all.
\<close>

theorem failed_fetch_favicon_null:
  assumes "fetch_page w lu = None"
  shows "favicon_url (fetchUrlMetadata w lu) = None
     \<and> (sc \<noteq> [] \<and> lu \<noteq> [] \<longrightarrow>
          (\<exists>t d. fst (post_metadata db w False (Some sc) (Some lu))
                   = (200, MetadataResult sc lu t d None ''success''))
          \<and> map_option row_favicon_url
               (get_metadata (snd (post_metadata db w False (Some sc) (Some lu))) sc) = Some None
          \<and> post_metadata db w True (Some sc) (Some lu)
               = ((500, MetadataError ''Failed to store metadata''), db))"
proof -
  have m: "fetchUrlMetadata w lu = unable_to_fetch"
    by (rule fetchUrlMetadata_failed) (rule assms)
  have g: "get_metadata (filter (\<lambda>r. row_short_code r \<noteq> row_short_code row) db @ [row])
             (row_short_code row) = Some row" for row
    by (rule get_after_insert_or_replace) (simp add: insert_or_replace_def)
  show ?thesis
    using g [of "\<lparr>row_short_code = sc, row_url = lu, row_title = (js ''Unable to fetch title''),
                     row_description = (js ''Could not retrieve page information''),
                     row_favicon_url = None\<rparr>"]
    by (auto simp: m post_metadata_present unable_to_fetch_def)
qed

text \<open>
  The theorem at an unreachable target: the earlier record of the code has a favicon,
  the record after the request has none.
\<close>

theorem failed_fetch_favicon_null_witness:
  "fetch_page unreachable_web (js ''https://example.com/page'') = None
   \<and> favicon_url (fetchUrlMetadata unreachable_web (js ''https://example.com/page'')) = None
   \<and> map_option row_favicon_url (get_metadata stale_table (js ''AQIDBA''))
       = Some (Some (js ''https://example.com/favicon.ico''))
   \<and> map_option row_favicon_url
       (get_metadata (snd (post_metadata stale_table unreachable_web False (Some (js ''AQIDBA''))
          (Some (js ''https://example.com/page'')))) (js ''AQIDBA'')) = Some None"
proof -
  have c: "fetch_page unreachable_web (js ''https://example.com/page'') = None"
    by (simp add: unreachable_web_def)
  have s: "map_option row_favicon_url (get_metadata stale_table (js ''AQIDBA''))
       = Some (Some (js ''https://example.com/favicon.ico''))"
    by (simp add: get_metadata_def stale_table_def)
  from failed_fetch_favicon_null [OF c, of "js ''AQIDBA''" stale_table] c s
  show ?thesis by simp
qed

end
